theory Spec2Isabelle
  imports Main
begin

section \<open>Values, exceptions and the world a fetch runs in\<close>

text \<open>
  The Python values that travel through \<open>fetch_packages.py\<close>: what a JSON body decodes
  to, and what the attributes of a package object hold. \<open>PNone\<close> is \<open>None\<close>. Strings
  are lists of code points below 256 (\<open>CHR 0xA0\<close> is the non-breaking space).
\<close>

datatype pyval =
    PNone
  | PBool bool
  | PInt int
  | PStr string
  | PList "pyval list"
  | PDict "(string \<times> pyval) list"

text \<open>
  The exceptions: the first four are the ones \<open>make_request\<close> has handlers for, the
  others are what the interpreter raises on an unbound name, a bad subscript, a failed
  unpacking and so on. \<open>OtherError\<close> is anything else a called method may raise.
\<close>

datatype exn =
    HttpNotFoundError
  | HttpServerError
  | ConnectionError
  | ReadTimeout
  | NameError string
  | UnboundLocalError string
  | TypeError
  | AttributeError
  | ValueError
  | KeyError string
  | UnicodeEncodeError
  | OtherError string

text \<open>One call of a network method either returns a value or raises.\<close>

datatype 'a outcome = Returns 'a | Raises exn

text \<open>
  A line written through \<open>logging\<close>: the level, the format string and its arguments.
\<close>

datatype level = INFO | WARNING

datatype log_entry = Log level string "pyval list"

text \<open>
  The two model classes the module imports from \<open>models\<close>, and a package object: a row
  of the table of its class. \<open>row_id\<close> is the primary key the ORM gives a row.
\<close>

datatype model_class = NPMPackage | PyPIPackage

record package =
  row_id :: nat
  model :: model_class
  name :: pyval
  repository_url :: pyval
  page_no :: pyval
  readme :: pyval
  description :: pyval
  day_download_count :: pyval
  week_download_count :: pyval
  month_download_count :: pyval

text \<open>
  The world: the state of the remote side (any type \<open>'w\<close>; a network method reads and
  changes it), the log, the pauses made by \<open>time.sleep\<close> (their lengths in seconds,
  oldest first), the number of times a network method has been invoked, and the two
  tables of the relational store.
\<close>

record 'w world =
  remote :: 'w
  log :: "log_entry list"
  sleeps :: "nat list"
  calls :: nat
  npm_table :: "package list"
  pypi_table :: "package list"

type_synonym ('w, 'a) net_method = "'w \<Rightarrow> 'a outcome \<times> 'w"

definition logging :: "level \<Rightarrow> string \<Rightarrow> pyval list \<Rightarrow> 'w world \<Rightarrow> 'w world" where
  "logging lv fmt args w = w\<lparr>log := log w @ [Log lv fmt args]\<rparr>"

definition time_sleep :: "nat \<Rightarrow> 'w world \<Rightarrow> 'w world" where
  "time_sleep d w = w\<lparr>sleeps := sleeps w @ [d]\<rparr>"

definition invoke :: "('w, 'a) net_method \<Rightarrow> 'w world \<Rightarrow> 'a outcome \<times> 'w world" where
  "invoke method w =
     (case method (remote w) of
        (out, r) \<Rightarrow> (out, w\<lparr>remote := r, calls := calls w + 1\<rparr>))"

section \<open>The request executor: \<open>make_request\<close>\<close>

definition MAX_ATTEMPTS :: nat where
  "MAX_ATTEMPTS = 5"

definition RETRY_DELAY :: nat where
  "RETRY_DELAY = 30"

text \<open>
  \<open>log_error\<close>: the renderings of the method and of its arguments, which fill the last
  three places of the format, are left out.
\<close>

definition log_error :: "string \<Rightarrow> 'w world \<Rightarrow> 'w world" where
  "log_error err_msg w =
     logging WARNING ''Error (%s) For API call %s, Args: %s, Kwargs: %s'' [PStr err_msg] w"

text \<open>Python's \<open>str\<close> of an integer, for the status code written to the log.\<close>

function str_nat :: "nat \<Rightarrow> string" where
  "str_nat n =
     (if n < 10 then [char_of (48 + n)]
      else str_nat (n div 10) @ [char_of (48 + n mod 10)])"
  by pat_completeness auto
termination
  by (relation "measure id") auto

declare str_nat.simps [simp del]

definition str_int :: "int \<Rightarrow> string" where
  "str_int i = (if i < 0 then CHR ''-'' # str_nat (nat (- i)) else str_nat (nat i))"

text \<open>
  The body of the \<open>try\<close> statement, one pass of the loop: the values of \<open>try_again\<close>
  and \<open>res\<close> after it, or the exception no handler caught. \<open>status_code\<close> is the
  probe \<open>hasattr(res, 'status_code')\<close> together with the attribute's value: \<open>None\<close> for
  an object without the attribute. The method's result is an object, not \<open>None\<close>.
\<close>

definition attempt ::
  "('a \<Rightarrow> int option) \<Rightarrow> ('w, 'a) net_method \<Rightarrow> bool \<Rightarrow> 'a option \<Rightarrow> 'w world
     \<Rightarrow> exn + (bool \<times> 'a option \<times> 'w world)" where
  "attempt status_code method try_again res w =
     (case invoke method w of
        (Returns v, w1) \<Rightarrow>
          (case status_code v of
             None \<Rightarrow> Inr (False, Some v, w1)
           | Some c \<Rightarrow>
               if c \<noteq> 200 then Inr (False, None, log_error (str_int c) w1)
               else Inr (False, Some v, w1))
      | (Raises HttpNotFoundError, w1) \<Rightarrow> Inr (False, res, log_error ''Not Found'' w1)
      | (Raises HttpServerError, w1) \<Rightarrow> Inr (False, res, log_error ''Server 500'' w1)
      | (Raises ConnectionError, w1) \<Rightarrow> Inr (try_again, res, log_error ''ConnectionError'' w1)
      | (Raises ReadTimeout, w1) \<Rightarrow> Inr (try_again, res, log_error ''ReadTimeout'' w1)
      | (Raises e, w1) \<Rightarrow> Inl e)"

text \<open>The \<open>while\<close> loop, with the local variables as arguments.\<close>

function make_request_loop ::
  "('a \<Rightarrow> int option) \<Rightarrow> ('w, 'a) net_method \<Rightarrow> bool \<Rightarrow> nat \<Rightarrow> 'a option \<Rightarrow> 'w world
     \<Rightarrow> exn + ('a option \<times> 'w world)" where
  "make_request_loop status_code method try_again attempts res w =
     (if try_again \<and> attempts < MAX_ATTEMPTS then
        (case attempt status_code method try_again res w of
           Inl e \<Rightarrow> Inl e
         | Inr (try_again', res', w') \<Rightarrow>
             if try_again' then
               make_request_loop status_code method try_again' (attempts + 1) res'
                 (time_sleep RETRY_DELAY
                    (logging WARNING ''Waiting %d seconds for before retrying.''
                       [PInt (int RETRY_DELAY)] w'))
             else make_request_loop status_code method try_again' attempts res' w')
      else Inr (res, w))"
  by pat_completeness auto
termination
  by (relation "measure (\<lambda>(sc, m, try_again, attempts, res, w).
        if try_again then Suc (MAX_ATTEMPTS - attempts) else 0)") auto

declare make_request_loop.simps [simp del]

definition make_request ::
  "('a \<Rightarrow> int option) \<Rightarrow> ('w, 'a) net_method \<Rightarrow> 'w world \<Rightarrow> exn + ('a option \<times> 'w world)" where
  "make_request status_code method w = make_request_loop status_code method True 0 None w"

text \<open>
  What the claims about the executor speak of: a transient error, a method that raises
  one on each of its next \<open>n\<close> calls, and the remote state after \<open>n\<close> calls.
\<close>

definition transient :: "exn \<Rightarrow> bool" where
  "transient e = (e = ConnectionError \<or> e = ReadTimeout)"

fun fails_transiently :: "nat \<Rightarrow> ('w, 'a) net_method \<Rightarrow> 'w \<Rightarrow> bool" where
  "fails_transiently 0 method r = True"
| "fails_transiently (Suc n) method r =
     (case method r of
        (Raises e, r') \<Rightarrow> transient e \<and> fails_transiently n method r'
      | (Returns v, r') \<Rightarrow> False)"

fun remote_after :: "nat \<Rightarrow> ('w, 'a) net_method \<Rightarrow> 'w \<Rightarrow> 'w" where
  "remote_after 0 method r = r"
| "remote_after (Suc n) method r = remote_after n method (snd (method r))"

text \<open>A world with nothing logged, slept, called or stored.\<close>

definition world0 :: "'w \<Rightarrow> 'w world" where
  "world0 r = \<lparr>remote = r, log = [], sleeps = [], calls = 0, npm_table = [], pypi_table = []\<rparr>"

text \<open>The two kinds of result: a decoded body has no status code, a response has one.\<close>

definition no_status :: "pyval \<Rightarrow> int option" where
  "no_status v = None"

record response =
  status :: int
  content :: string
  json_body :: "pyval option"

definition response_status :: "response \<Rightarrow> int option" where
  "response_status r = Some (status r)"

section \<open>Python operations the fetchers use\<close>

text \<open>\<open>obj[key]\<close> with a string key: only a dictionary has one.\<close>

definition getitem :: "pyval \<Rightarrow> string \<Rightarrow> exn + pyval" where
  "getitem obj key =
     (case obj of
        PDict kvs \<Rightarrow> (case map_of kvs key of None \<Rightarrow> Inl (KeyError key) | Some v \<Rightarrow> Inr v)
      | _ \<Rightarrow> Inl TypeError)"

text \<open>\<open>len(obj)\<close> of the result of \<open>make_request\<close>, which may be \<open>None\<close>.\<close>

definition py_len :: "pyval option \<Rightarrow> exn + int" where
  "py_len obj =
     (case obj of
        Some (PList xs) \<Rightarrow> Inr (int (length xs))
      | Some (PStr s) \<Rightarrow> Inr (int (length s))
      | Some (PDict kvs) \<Rightarrow> Inr (int (length kvs))
      | _ \<Rightarrow> Inl TypeError)"

text \<open>The items a \<open>for\<close> loop draws from a value.\<close>

definition py_iter :: "pyval \<Rightarrow> exn + pyval list" where
  "py_iter obj =
     (case obj of
        PList xs \<Rightarrow> Inr xs
      | PStr s \<Rightarrow> Inr (map (\<lambda>c. PStr [c]) s)
      | PDict kvs \<Rightarrow> Inr (map (\<lambda>kv. PStr (fst kv)) kvs)
      | _ \<Rightarrow> Inl TypeError)"

text \<open>\<open>s.replace(old, new)\<close> for a one-character \<open>old\<close>.\<close>

definition replace_char :: "char \<Rightarrow> string \<Rightarrow> string \<Rightarrow> string" where
  "replace_char old new s = concat (map (\<lambda>c. if c = old then new else [c]) s)"

definition nbsp :: char where
  "nbsp = CHR 0xA0"

definition newline :: char where
  "newline = CHR 0x0A"

subsection \<open>\<open>int\<close> of a string, and the download-count parser\<close>

definition is_digit :: "char \<Rightarrow> bool" where
  "is_digit c = (48 \<le> (of_char c :: nat) \<and> (of_char c :: nat) \<le> 57)"

definition digit_val :: "char \<Rightarrow> nat" where
  "digit_val c = (of_char c :: nat) - 48"

text \<open>The characters \<open>int\<close> strips from both ends of a Unicode string.\<close>

definition is_space :: "char \<Rightarrow> bool" where
  "is_space c =
     (let n = (of_char c :: nat)
      in (9 \<le> n \<and> n \<le> 13) \<or> (28 \<le> n \<and> n \<le> 32) \<or> n = 133 \<or> n = 160)"

definition strip :: "string \<Rightarrow> string" where
  "strip s = rev (dropWhile is_space (rev (dropWhile is_space s)))"

text \<open>The digits read left to right, as the conversion accumulates them.\<close>

definition digits_value :: "string \<Rightarrow> nat" where
  "digits_value ds = foldl (\<lambda>acc c. 10 * acc + digit_val c) 0 ds"

definition parse_digits :: "string \<Rightarrow> exn + nat" where
  "parse_digits ds =
     (if ds \<noteq> [] \<and> list_all is_digit ds then Inr (digits_value ds) else Inl ValueError)"

text \<open>
  \<open>int(s)\<close> in base 10: surrounding white space, an optional sign, then decimal digits
  and nothing else; \<open>ValueError\<close> otherwise.
\<close>

definition py_int :: "string \<Rightarrow> exn + int" where
  "py_int s =
     (case strip s of
        [] \<Rightarrow> Inl ValueError
      | c # cs \<Rightarrow>
          if c = CHR ''-'' then
            (case parse_digits cs of Inl e \<Rightarrow> Inl e | Inr n \<Rightarrow> Inr (- int n))
          else if c = CHR ''+'' then
            (case parse_digits cs of Inl e \<Rightarrow> Inl e | Inr n \<Rightarrow> Inr (int n))
          else
            (case parse_digits (c # cs) of Inl e \<Rightarrow> Inl e | Inr n \<Rightarrow> Inr (int n)))"

text \<open>\<open>to_count = lambda s: int(s.replace(',', '')) if s != '' else 0\<close>\<close>

definition to_count :: "string \<Rightarrow> exn + int" where
  "to_count s = (if s \<noteq> [] then py_int (replace_char CHR '','' [] s) else Inr 0)"

text \<open>
  The number a string of decimal digits denotes, place by place: the last digit counts
  ones, the one before it tens, and so on. This is the reading the parser is measured
  against.
\<close>

fun decimal :: "string \<Rightarrow> nat" where
  "decimal [] = 0"
| "decimal (c # cs) = digit_val c * 10 ^ length cs + decimal cs"

text \<open>
  A count written with thousands separators: a leading group of digits, then groups
  after a comma each.
\<close>

fun with_separators :: "string \<Rightarrow> string list \<Rightarrow> string" where
  "with_separators g [] = g"
| "with_separators g (h # hs) = g @ CHR '','' # with_separators h hs"

definition digit_group :: "string \<Rightarrow> bool" where
  "digit_group g = (g \<noteq> [] \<and> list_all is_digit g)"

subsection \<open>\<open>github_info\<close>\<close>

definition starts_with :: "string \<Rightarrow> string \<Rightarrow> bool" where
  "starts_with pat s = (take (length pat) s = pat)"

text \<open>\<open>pat in s\<close> for strings.\<close>

fun is_substring :: "string \<Rightarrow> string \<Rightarrow> bool" where
  "is_substring pat [] = (pat = [])"
| "is_substring pat (c # cs) = (starts_with pat (c # cs) \<or> is_substring pat cs)"

text \<open>
  The pattern \<open>(?:github.com)\<close> at the head of a string. The dot is not escaped in the
  source: it stands for any character but a line break.
\<close>

definition marker_at :: "string \<Rightarrow> bool" where
  "marker_at s =
     (starts_with ''github'' s \<and>
      (case drop 6 s of
         [] \<Rightarrow> False
       | c # rest \<Rightarrow> c \<noteq> newline \<and> starts_with ''com'' rest))"

text \<open>A match of the pattern anywhere in a string.\<close>

fun has_marker :: "string \<Rightarrow> bool" where
  "has_marker [] = False"
| "has_marker (c # cs) = (marker_at (c # cs) \<or> has_marker cs)"

text \<open>
  The match of \<open>^.*(?:github.com)\<close> at the head of a string: what follows the match, if
  there is one. \<open>.*\<close> is greedy and stops at a line break, so the match ends with the
  last occurrence of the pattern that starts on the first line.
\<close>

fun match_marker :: "string \<Rightarrow> string option" where
  "match_marker [] = None"
| "match_marker (c # cs) =
     (case (if c = newline then None else match_marker cs) of
        Some r \<Rightarrow> Some r
      | None \<Rightarrow> if marker_at (c # cs) then Some (drop 10 (c # cs)) else None)"

text \<open>
  \<open>re.sub('^.*(?:github.com)', '', url)\<close>: the pattern is anchored at the start of the
  string, so at most one match is replaced.
\<close>

definition re_sub_marker :: "string \<Rightarrow> string" where
  "re_sub_marker url = (case match_marker url of None \<Rightarrow> url | Some r \<Rightarrow> r)"

text \<open>\<open>s.split(sep, maxsplit)\<close> for a one-character separator.\<close>

fun split_max :: "nat \<Rightarrow> char \<Rightarrow> string \<Rightarrow> string list" where
  "split_max 0 sep s = [s]"
| "split_max (Suc n) sep s =
     (if sep \<in> set s
      then takeWhile (\<lambda>c. c \<noteq> sep) s # split_max n sep (tl (dropWhile (\<lambda>c. c \<noteq> sep) s))
      else [s])"

text \<open>
  \<open>'github.com' in url\<close> for whatever the attribute holds: a substring test on a
  string, a membership test on a list or on the keys of a dictionary, \<open>TypeError\<close> on
  a value that cannot be iterated.
\<close>

definition marker_in :: "pyval \<Rightarrow> exn + bool" where
  "marker_in url =
     (case url of
        PStr s \<Rightarrow> Inr (is_substring ''github.com'' s)
      | PList xs \<Rightarrow> Inr (List.member xs (PStr ''github.com''))
      | PDict kvs \<Rightarrow> Inr (List.member (map fst kvs) ''github.com'')
      | _ \<Rightarrow> Inl TypeError)"

text \<open>
  \<open>github_info\<close>: the unpacking \<open>_, user, repo_name = url.split('/', 2)\<close> raises
  \<open>ValueError\<close> unless the split gives three parts; \<open>re.sub\<close> raises \<open>TypeError\<close> on
  a value that is not a string.
\<close>

definition github_info :: "pyval \<Rightarrow> exn + (string \<times> string) option" where
  "github_info url =
     (case marker_in url of
        Inl e \<Rightarrow> Inl e
      | Inr False \<Rightarrow> Inr None
      | Inr True \<Rightarrow>
          (case url of
             PStr s \<Rightarrow>
               (case split_max 2 CHR ''/'' (re_sub_marker s) of
                  [u, user, repo_name] \<Rightarrow> Inr (Some (user, repo_name))
                | _ \<Rightarrow> Inl ValueError)
           | _ \<Rightarrow> Inl TypeError))"

subsection \<open>\<open>base64.b64decode\<close>\<close>

text \<open>The value of a character of the base64 alphabet.\<close>

definition b64_value :: "char \<Rightarrow> nat option" where
  "b64_value c =
     (let n = (of_char c :: nat)
      in if 65 \<le> n \<and> n \<le> 90 then Some (n - 65)
         else if 97 \<le> n \<and> n \<le> 122 then Some (n - 71)
         else if 48 \<le> n \<and> n \<le> 57 then Some (n + 4)
         else if c = CHR ''+'' then Some 62
         else if c = CHR ''/'' then Some 63
         else None)"

definition pad :: char where
  "pad = CHR ''=''"

text \<open>The next character that is of the alphabet or is the padding character.\<close>

definition find_valid :: "string \<Rightarrow> char option" where
  "find_valid cs = find (\<lambda>c. c = pad \<or> b64_value c \<noteq> None) cs"

text \<open>
  The decoder of the standard library (\<open>binascii.a2b_base64\<close>, which \<open>b64decode\<close>
  calls): it reads the input left to right, with the position in the current group of
  four, the bits not yet written and their number; it skips what is not of the alphabet,
  stops at a padding that closes a group, and raises if bits are left at the end.
  \<open>b64decode\<close> turns that error into \<open>TypeError\<close>.
\<close>

fun a2b_base64 :: "string \<Rightarrow> nat \<Rightarrow> nat \<Rightarrow> nat \<Rightarrow> exn + string" where
  "a2b_base64 [] quad_pos leftchar leftbits =
     (if leftbits \<noteq> 0 then Inl TypeError else Inr [])"
| "a2b_base64 (c # cs) quad_pos leftchar leftbits =
     (if (of_char c :: nat) > 127 \<or> c = CHR 0x0D \<or> c = CHR 0x0A \<or> c = CHR '' '' then
        a2b_base64 cs quad_pos leftchar leftbits
      else if c = pad then
        (if quad_pos < 2 \<or> (quad_pos = 2 \<and> find_valid cs \<noteq> Some pad) then
           a2b_base64 cs quad_pos leftchar leftbits
         else Inr [])
      else
        (case b64_value c of
           None \<Rightarrow> a2b_base64 cs quad_pos leftchar leftbits
         | Some v \<Rightarrow>
             (let q = (quad_pos + 1) mod 4;
                  lc = leftchar * 64 + v;
                  lb = leftbits + 6
              in if lb \<ge> 8 then
                   (case a2b_base64 cs q (lc mod 2 ^ (lb - 8)) (lb - 8) of
                      Inl e \<Rightarrow> Inl e
                    | Inr out \<Rightarrow> Inr (char_of (lc div 2 ^ (lb - 8)) # out))
                 else a2b_base64 cs q lc lb)))"

text \<open>
  \<open>b64decode\<close> of whatever the \<open>content\<close> field holds. A string decoded from JSON is a
  text string; the decoder takes it as bytes through the ASCII codec, so a code point
  above 127 raises \<open>UnicodeEncodeError\<close> before any decoding.
\<close>

definition b64decode :: "pyval \<Rightarrow> exn + string" where
  "b64decode s =
     (case s of
        PStr cs \<Rightarrow>
          if list_ex (\<lambda>c. (of_char c :: nat) > 127) cs then Inl UnicodeEncodeError
          else a2b_base64 cs 0 0 0
      | _ \<Rightarrow> Inl TypeError)"

section \<open>The persistence gateway\<close>

definition table :: "model_class \<Rightarrow> 'w world \<Rightarrow> package list" where
  "table cls w = (case cls of NPMPackage \<Rightarrow> npm_table w | PyPIPackage \<Rightarrow> pypi_table w)"

definition set_table :: "model_class \<Rightarrow> package list \<Rightarrow> 'w world \<Rightarrow> 'w world" where
  "set_table cls rows w =
     (case cls of NPMPackage \<Rightarrow> w\<lparr>npm_table := rows\<rparr> | PyPIPackage \<Rightarrow> w\<lparr>pypi_table := rows\<rparr>)"

definition fresh_id :: "package list \<Rightarrow> nat" where
  "fresh_id rows = Suc (foldr max (map row_id rows) 0)"

definition new_package :: "model_class \<Rightarrow> nat \<Rightarrow> pyval \<Rightarrow> pyval \<Rightarrow> pyval \<Rightarrow> package" where
  "new_package cls i nm url pg =
     \<lparr>row_id = i, model = cls, name = nm, repository_url = url, page_no = pg,
      readme = PNone, description = PNone, day_download_count = PNone,
      week_download_count = PNone, month_download_count = PNone\<rparr>"

text \<open>
  Modelled from the spec: \<open>get_or_create\<close> of the model classes; \<open>models.py\<close>, which
  declares them over the ORM, is not among the sources. The spec: find-or-create is an
  "idempotent insert returning the existing record if the key already exists, else
  creating it"; the name "uniquely identifies a record within its ecosystem's table";
  the list fetch does "find-or-create a record keyed by name, storing repository URL and
  page number". The arguments after the name are the other fields a call passes
  (\<open>PNone\<close> for a field it does not pass).
\<close>

definition get_or_create ::
  "model_class \<Rightarrow> pyval \<Rightarrow> pyval \<Rightarrow> pyval \<Rightarrow> 'w world \<Rightarrow> package \<times> 'w world" where
  "get_or_create cls nm url pg w =
     (case find (\<lambda>q. name q = nm) (table cls w) of
        Some q \<Rightarrow> (q, w)
      | None \<Rightarrow>
          (let q = new_package cls (fresh_id (table cls w)) nm url pg
           in (q, set_table cls (table cls w @ [q]) w)))"

text \<open>
  Modelled from the spec: \<open>save\<close> of a package object ("save mutated record"), also of
  \<open>models.py\<close> and the ORM: the row with the object's primary key takes the object's
  fields.
\<close>

definition save :: "package \<Rightarrow> 'w world \<Rightarrow> 'w world" where
  "save p w =
     set_table (model p)
       (map (\<lambda>q. if row_id q = row_id p then p else q) (table (model p) w)) w"

section \<open>The module's global names\<close>

text \<open>
  The model classes the module binds are those of its import line,
  \<open>from models import NPMPackage, create_npm_tables, PyPIPackage, create_pypi_tables\<close>;
  a global name that is not bound raises \<open>NameError\<close> when it is evaluated.
\<close>

definition module_globals :: "string \<Rightarrow> model_class option" where
  "module_globals n =
     (if n = ''NPMPackage'' then Some NPMPackage
      else if n = ''PyPIPackage'' then Some PyPIPackage
      else None)"

definition lookup_global :: "string \<Rightarrow> exn + model_class" where
  "lookup_global n = (case module_globals n of None \<Rightarrow> Inl (NameError n) | Some c \<Rightarrow> Inr c)"

text \<open>Sequencing of two steps, the first of which may raise.\<close>

definition then_do :: "exn + 'a \<Rightarrow> ('a \<Rightarrow> exn + 'b) \<Rightarrow> exn + 'b" where
  "then_do r f = (case r of Inl e \<Rightarrow> Inl e | Inr x \<Rightarrow> f x)"

section \<open>The fetchers\<close>

subsection \<open>\<open>fetch_packagenames_from_libraryio\<close>\<close>

text \<open>
  The inner \<open>for\<close> loop over the items of a page. The callee \<open>Package.get_or_create\<close>
  is evaluated before the arguments of the call are.
\<close>

fun create_from_items :: "pyval list \<Rightarrow> int \<Rightarrow> 'w world \<Rightarrow> exn + 'w world" where
  "create_from_items [] page w = Inr w"
| "create_from_items (p # ps) page w =
     then_do (lookup_global ''Package'') (\<lambda>cls.
     then_do (getitem p ''name'') (\<lambda>nm.
     then_do (getitem p ''repository_url'') (\<lambda>url.
       create_from_items ps page (snd (get_or_create cls nm url (PInt page) w)))))"

definition store_page :: "pyval option \<Rightarrow> int \<Rightarrow> 'w world \<Rightarrow> exn + 'w world" where
  "store_page packages page w =
     (case packages of
        None \<Rightarrow> Inr w
      | Some v \<Rightarrow> then_do (py_iter v) (\<lambda>items. create_from_items items page w))"

text \<open>
  The \<open>while keep_fetching\<close> loop. Nothing bounds the number of pages a server may
  return, so the loop takes fuel: \<open>None\<close> is a run that has not ended within it.
  \<open>search_get page\<close> is \<open>libraries_io.search.get\<close> with \<open>page=page\<close>.
\<close>

fun fetch_pages ::
  "nat \<Rightarrow> (int \<Rightarrow> ('w, pyval) net_method) \<Rightarrow> int \<Rightarrow> int \<Rightarrow> int \<Rightarrow> 'w world
     \<Rightarrow> (exn + 'w world) option" where
  "fetch_pages 0 search_get package_count page count_retrieved w = None"
| "fetch_pages (Suc fuel) search_get package_count page count_retrieved w =
     (case make_request no_status (search_get page)
             (logging INFO ''Fetching page %d of package names'' [PInt page] w) of
        Inl e \<Rightarrow> Some (Inl e)
      | Inr (packages, w1) \<Rightarrow>
          (case store_page packages page w1 of
             Inl e \<Rightarrow> Some (Inl e)
           | Inr w2 \<Rightarrow>
               (case py_len packages of
                  Inl e \<Rightarrow> Some (Inl e)
                | Inr n \<Rightarrow>
                    if n > 0 \<and> (package_count = - 1 \<or> count_retrieved + n < package_count)
                    then fetch_pages fuel search_get package_count (page + 1)
                           (count_retrieved + n) w2
                    else Some (Inr w2))))"

definition fetch_packagenames_from_libraryio ::
  "nat \<Rightarrow> (int \<Rightarrow> ('w, pyval) net_method) \<Rightarrow> int \<Rightarrow> 'w world \<Rightarrow> (exn + 'w world) option" where
  "fetch_packagenames_from_libraryio fuel search_get package_count w =
     fetch_pages fuel search_get package_count 0 0 w"

subsection \<open>\<open>fetch_github_readmes\<close>\<close>

text \<open>\<open>readme_get user repo_name\<close> is \<open>github.repos(user)(repo_name).readme.get\<close>.\<close>

fun fetch_github_readmes ::
  "(string \<Rightarrow> string \<Rightarrow> ('w, pyval) net_method) \<Rightarrow> package list \<Rightarrow> 'w world \<Rightarrow> exn + 'w world" where
  "fetch_github_readmes readme_get [] w = Inr w"
| "fetch_github_readmes readme_get (p # ps) w =
     (case github_info (repository_url p) of
        Inl e \<Rightarrow> Inl e
      | Inr None \<Rightarrow>
          fetch_github_readmes readme_get ps
            (logging INFO
               ''Not fetching README.  Package %s does not have a Github repository''
               [name p] w)
      | Inr (Some (user, repo_name)) \<Rightarrow>
          (case make_request no_status (readme_get user repo_name)
                  (logging INFO ''Fetching README for %s'' [name p] w) of
             Inl e \<Rightarrow> Inl e
           | Inr (None, w1) \<Rightarrow> fetch_github_readmes readme_get ps w1
           | Inr (Some readme_obj, w1) \<Rightarrow>
               then_do (getitem readme_obj ''content'') (\<lambda>c.
               then_do (b64decode c) (\<lambda>text.
                 fetch_github_readmes readme_get ps (save (p\<lparr>readme := PStr text\<rparr>) w1)))))"

subsection \<open>\<open>fetch_npm_package_list\<close>\<close>

text \<open>\<open>session_get url\<close> is \<open>default_requests_session.get\<close> applied to \<open>url\<close>.\<close>

fun create_from_ids :: "pyval list \<Rightarrow> 'w world \<Rightarrow> exn + 'w world" where
  "create_from_ids [] w = Inr w"
| "create_from_ids (p # ps) w =
     then_do (lookup_global ''NPMPackage'') (\<lambda>cls.
     then_do (getitem p ''id'') (\<lambda>nm.
       create_from_ids ps (snd (get_or_create cls nm PNone PNone w))))"

definition fetch_npm_package_list ::
  "(string \<Rightarrow> ('w, response) net_method) \<Rightarrow> 'w world \<Rightarrow> exn + 'w world" where
  "fetch_npm_package_list session_get w =
     (case make_request response_status
             (session_get ''https://skimdb.npmjs.com/registry/_all_docs'') w of
        Inl e \<Rightarrow> Inl e
      | Inr (None, w1) \<Rightarrow> Inr w1
      | Inr (Some res, w1) \<Rightarrow>
          (case json_body res of
             None \<Rightarrow> Inl ValueError
           | Some j \<Rightarrow>
               then_do (getitem j ''rows'') (\<lambda>packages.
               then_do (py_iter packages) (\<lambda>items. create_from_ids items w1))))"

subsection \<open>\<open>fetch_pypi_package_list\<close>\<close>

text \<open>
  The \<open>for\<close> loop over the rows of the table. A row is the text of its link, or
  \<open>None\<close> for a row without a link.
\<close>

fun create_from_rows :: "string option list \<Rightarrow> nat \<Rightarrow> 'w world \<Rightarrow> exn + (nat \<times> 'w world)" where
  "create_from_rows [] num_fetched w = Inr (num_fetched, w)"
| "create_from_rows (None # all_rows) num_fetched w = create_from_rows all_rows num_fetched w"
| "create_from_rows (Some link_text # all_rows) num_fetched w =
     then_do (lookup_global ''PyPIPackage'') (\<lambda>cls.
       (let package_name = replace_char nbsp '' '' link_text;
            w1 = snd (get_or_create cls (PStr package_name) PNone PNone w);
            n = num_fetched + 1;
            w2 = (if n mod 10 = 0 then logging INFO ''%d packages fetched.'' [PInt (int n)] w1
                  else w1)
        in create_from_rows all_rows n w2))"

text \<open>
  \<open>find_rows\<close> is the HTML parser on the body of the index page: the rows of its first
  table, or \<open>None\<close> for a page without a table (\<open>page.find('table')\<close> is then
  \<open>None\<close>, and \<open>findAll\<close> on it raises). \<open>res.content\<close> on the result \<open>None\<close> of
  \<open>make_request\<close> raises \<open>AttributeError\<close>: the source does not test \<open>res\<close> here.
\<close>

definition fetch_pypi_package_list ::
  "(string \<Rightarrow> ('w, response) net_method) \<Rightarrow> (string \<Rightarrow> string option list option) \<Rightarrow> 'w world
     \<Rightarrow> exn + 'w world" where
  "fetch_pypi_package_list session_get find_rows w =
     (case make_request response_status
             (session_get ''https://pypi.python.org/pypi?%3Aaction=index'') w of
        Inl e \<Rightarrow> Inl e
      | Inr (None, w1) \<Rightarrow> Inl AttributeError
      | Inr (Some res, w1) \<Rightarrow>
          (case find_rows (content res) of
             None \<Rightarrow> Inl AttributeError
           | Some all_rows \<Rightarrow>
               (case create_from_rows all_rows 0
                       (logging INFO ''====There are currently %d packages on PyPI.''
                          [PInt (int (length all_rows) - 1)] w1) of
                  Inl e \<Rightarrow> Inl e
                | Inr (num_fetched, w2) \<Rightarrow>
                    Inr (logging INFO
                           ''====Done fetching package list. There were %d packages.''
                           [PInt (int num_fetched)] w2))))"

subsection \<open>\<open>fetch_pypi_data\<close>\<close>

text \<open>
  The field assignments from \<open>package_json\<close>, in the source's order; an exception
  leaves the stored row as it was, since \<open>save\<close> comes last.
\<close>

definition assign_info :: "pyval \<Rightarrow> package \<Rightarrow> exn + package" where
  "assign_info package_json p =
     then_do (getitem package_json ''info'') (\<lambda>package_info.
     then_do (getitem package_info ''downloads'') (\<lambda>download_info.
     then_do (getitem download_info ''last_day'') (\<lambda>d.
     then_do (getitem download_info ''last_week'') (\<lambda>wk.
     then_do (getitem download_info ''last_month'') (\<lambda>m.
     then_do (getitem package_info ''summary'') (\<lambda>summary.
     then_do (getitem package_info ''description'') (\<lambda>descr.
       Inr (p\<lparr>day_download_count := d, week_download_count := wk,
               month_download_count := m, description := summary, readme := descr\<rparr>))))))))"

definition formatted_name :: "pyval \<Rightarrow> exn + string" where
  "formatted_name nm =
     (case nm of
        PStr s \<Rightarrow> Inr (replace_char nbsp ''/'' (replace_char CHR '' '' ''/'' s))
      | _ \<Rightarrow> Inl AttributeError)"

text \<open>
  The \<open>for\<close> loop. \<open>package_json\<close> is a local variable of the function, so it keeps
  its value from one pass to the next: \<open>None\<close> here is the variable before its first
  assignment, and reading it then raises \<open>UnboundLocalError\<close>. The \<open>except ValueError\<close>
  branch only logs; the statements after the \<open>try\<close> run in either case.
\<close>

fun fetch_pypi_loop ::
  "(string \<Rightarrow> ('w, response) net_method) \<Rightarrow> package list \<Rightarrow> nat \<Rightarrow> pyval option \<Rightarrow> 'w world
     \<Rightarrow> exn + (nat \<times> 'w world)" where
  "fetch_pypi_loop session_get [] num_fetched package_json w = Inr (num_fetched, w)"
| "fetch_pypi_loop session_get (p # ps) num_fetched package_json w =
     then_do (formatted_name (name p)) (\<lambda>fname.
       (case make_request response_status
               (session_get (''https://pypi.python.org/pypi/'' @ fname @ ''/json'')) w of
          Inl e \<Rightarrow> Inl e
        | Inr (None, w1) \<Rightarrow> fetch_pypi_loop session_get ps num_fetched package_json w1
        | Inr (Some res, w1) \<Rightarrow>
            (let (package_json', w2) =
                   (case json_body res of
                      Some j \<Rightarrow> (Some j, w1)
                    | None \<Rightarrow>
                        (package_json,
                         logging WARNING ''No JSON Object Could Be Decoded'' [] w1))
             in case package_json' of
                  None \<Rightarrow> Inl (UnboundLocalError ''package_json'')
                | Some j \<Rightarrow>
                    then_do (assign_info j p) (\<lambda>p'.
                      (let w3 = save p' w2;
                           n = num_fetched + 1;
                           w4 = (if n mod 10 = 0
                                 then logging INFO ''Done fetching %d packages.''
                                        [PInt (int n)] w3
                                 else w3)
                       in fetch_pypi_loop session_get ps n package_json' w4)))))"

definition fetch_pypi_data ::
  "(string \<Rightarrow> ('w, response) net_method) \<Rightarrow> package list \<Rightarrow> 'w world \<Rightarrow> exn + 'w world" where
  "fetch_pypi_data session_get packages w =
     (case fetch_pypi_loop session_get packages 0 None
             (logging INFO ''Fetching PyPI data for %d packages''
                [PInt (int (length packages))] w) of
        Inl e \<Rightarrow> Inl e
      | Inr (num_fetched, w1) \<Rightarrow>
          Inr (logging INFO
                 ''====Done retrieving package data for all packages. %d packages had data.''
                 [PInt (int num_fetched)] w1))"

section \<open>Concrete remote sides\<close>

text \<open>A host that refuses every connection.\<close>

definition always_refused :: "(unit, pyval) net_method" where
  "always_refused r = (Raises ConnectionError, r)"

text \<open>
  A host that times out on the first four calls and answers 200 from the fifth on; the
  remote state counts the calls.
\<close>

definition ok_response :: response where
  "ok_response = \<lparr>status = 200, content = ''ok'', json_body = None\<rparr>"

definition flaky :: "(nat, response) net_method" where
  "flaky r = (if r < 4 then Raises ReadTimeout else Returns ok_response, Suc r)"

text \<open>A host that answers every call with status 404.\<close>

definition not_found_response :: response where
  "not_found_response = \<lparr>status = 404, content = ''Not Found'', json_body = None\<rparr>"

definition always_404 :: "(unit, response) net_method" where
  "always_404 r = (Returns not_found_response, r)"

text \<open>A host that has no such resource.\<close>

definition always_missing :: "(unit, pyval) net_method" where
  "always_missing r = (Raises HttpNotFoundError, r)"

text \<open>
  A readme endpoint that answers every call with the object whose \<open>content\<close> is the
  base64 text of "Hello", and a stored package whose repository is on the code host.
\<close>

definition readme_host :: "string \<Rightarrow> string \<Rightarrow> (unit, pyval) net_method" where
  "readme_host user repo_name r = (Returns (PDict [(''content'', PStr ''SGVsbG8='')]), r)"

definition bar_package :: package where
  "bar_package =
     new_package NPMPackage 1 (PStr ''bar'') (PStr ''https://github.com/foo/bar'') PNone"

definition bar_world :: "unit world" where
  "bar_world = (world0 ())\<lparr>npm_table := [bar_package]\<rparr>"

text \<open>
  A stored package whose repository URL names a user of the code host and no repository,
  and a store that holds it before the package above.
\<close>

definition foo_package :: package where
  "foo_package =
     new_package NPMPackage 2 (PStr ''foo'') (PStr ''https://github.com/foo'') PNone"

definition foo_bar_world :: "unit world" where
  "foo_bar_world = (world0 ())\<lparr>npm_table := [foo_package, bar_package]\<rparr>"

text \<open>A search endpoint with two pages: two items on page 0, none on page 1.\<close>

definition two_pages :: "int \<Rightarrow> (unit, pyval) net_method" where
  "two_pages page r =
     (if page = 0 then
        Returns (PList
          [PDict [(''name'', PStr ''left-pad''),
                  (''repository_url'', PStr ''https://github.com/a/left-pad'')],
           PDict [(''name'', PStr ''is-odd''),
                  (''repository_url'', PStr ''https://github.com/b/is-odd'')]])
      else Returns (PList []), r)"

text \<open>
  A package index that answers the detail request for package \<open>a\<close> with a JSON body and
  every other detail request with a body that is not JSON (both with status 200), and
  two stored packages \<open>a\<close> and \<open>b\<close>.
\<close>

definition info_a :: pyval where
  "info_a =
     PDict [(''info'',
             PDict [(''downloads'',
                     PDict [(''last_day'', PInt 1), (''last_week'', PInt 7),
                            (''last_month'', PInt 30)]),
                    (''summary'', PStr ''A''),
                    (''description'', PStr ''About A'')])]"

definition pypi_host :: "string \<Rightarrow> (unit, response) net_method" where
  "pypi_host url r =
     (if url = ''https://pypi.python.org/pypi/a/json''
      then Returns \<lparr>status = 200, content = ''{}'', json_body = Some info_a\<rparr>
      else Returns \<lparr>status = 200, content = ''<html>'', json_body = None\<rparr>, r)"

definition pkg_a :: package where
  "pkg_a = new_package PyPIPackage 1 (PStr ''a'') PNone PNone"

definition pkg_b :: package where
  "pkg_b = new_package PyPIPackage 2 (PStr ''b'') PNone PNone"

definition pypi_world :: "unit world" where
  "pypi_world = (world0 ())\<lparr>pypi_table := [pkg_a, pkg_b]\<rparr>"

section \<open>Properties of the request executor\<close>

lemma loop_exit:
  "\<not> (try_again \<and> attempts < MAX_ATTEMPTS) \<Longrightarrow>
   make_request_loop sc method try_again attempts res w = Inr (res, w)"
  by (subst make_request_loop.simps) auto

text \<open>One pass that ends in a transient error: a log line, a pause, one more attempt.\<close>

lemma loop_transient_step:
  assumes "method (remote w) = (Raises e, r')" and "transient e" and "attempts < MAX_ATTEMPTS"
  shows "\<exists>w'. make_request_loop sc method True attempts res w =
                make_request_loop sc method True (Suc attempts) res w'
            \<and> remote w' = r' \<and> calls w' = Suc (calls w)
            \<and> sleeps w' = sleeps w @ [RETRY_DELAY]
            \<and> npm_table w' = npm_table w \<and> pypi_table w' = pypi_table w"
  using assms
  apply (subst make_request_loop.simps)
  apply (auto simp: transient_def attempt_def invoke_def log_error_def logging_def time_sleep_def)
  done

lemma loop_transient_many:
  "fails_transiently n method (remote w) \<Longrightarrow> attempts + n \<le> MAX_ATTEMPTS \<Longrightarrow>
   \<exists>w'. make_request_loop sc method True attempts res w =
         make_request_loop sc method True (attempts + n) res w'
       \<and> remote w' = remote_after n method (remote w)
       \<and> calls w' = calls w + n
       \<and> sleeps w' = sleeps w @ replicate n RETRY_DELAY
       \<and> npm_table w' = npm_table w \<and> pypi_table w' = pypi_table w"
proof (induction n arbitrary: w attempts)
  case 0
  then show ?case by auto
next
  case (Suc n)
  from Suc.prems(1) obtain e r' where m: "method (remote w) = (Raises e, r')"
    and t: "transient e" and f: "fails_transiently n method r'"
    by (auto split: prod.splits outcome.splits)
  from Suc.prems(2) have lt: "attempts < MAX_ATTEMPTS" by simp
  from m t lt have "\<exists>w'. make_request_loop sc method True attempts res w =
                make_request_loop sc method True (Suc attempts) res w'
            \<and> remote w' = r' \<and> calls w' = Suc (calls w)
            \<and> sleeps w' = sleeps w @ [RETRY_DELAY]
            \<and> npm_table w' = npm_table w \<and> pypi_table w' = pypi_table w"
    by (rule loop_transient_step)
  then obtain w1 where
    w1: "make_request_loop sc method True attempts res w =
         make_request_loop sc method True (Suc attempts) res w1"
      "remote w1 = r'" "calls w1 = Suc (calls w)" "sleeps w1 = sleeps w @ [RETRY_DELAY]"
      "npm_table w1 = npm_table w" "pypi_table w1 = pypi_table w"
    by blast
  from f w1(2) have f1: "fails_transiently n method (remote w1)" by simp
  from Suc.prems(2) have le: "Suc attempts + n \<le> MAX_ATTEMPTS" by simp
  from Suc.IH[OF f1 le] obtain w2 where
    w2: "make_request_loop sc method True (Suc attempts) res w1 =
         make_request_loop sc method True (Suc attempts + n) res w2"
      "remote w2 = remote_after n method (remote w1)"
      "calls w2 = calls w1 + n"
      "sleeps w2 = sleeps w1 @ replicate n RETRY_DELAY"
      "npm_table w2 = npm_table w1" "pypi_table w2 = pypi_table w1"
    by blast
  show ?case
    apply (rule exI[of _ w2])
    using w1 w2 m by (simp add: replicate_app_Cons_same)
qed

text \<open>
  A method that raises a transient error on each of its next five calls: the executor
  returns \<open>None\<close> after five attempts, and it has paused five times, once after each
  failed attempt, the last one included.
\<close>

lemma make_request_all_transient:
  assumes "fails_transiently MAX_ATTEMPTS method (remote w)"
  shows "\<exists>w'. make_request sc method w = Inr (None, w')
           \<and> calls w' = calls w + MAX_ATTEMPTS
           \<and> sleeps w' = sleeps w @ replicate MAX_ATTEMPTS RETRY_DELAY"
proof -
  from loop_transient_many[of MAX_ATTEMPTS "method" w 0 sc None] assms obtain w' where
    w': "make_request_loop sc method True 0 None w =
         make_request_loop sc method True MAX_ATTEMPTS None w'"
      "calls w' = calls w + MAX_ATTEMPTS"
      "sleeps w' = sleeps w @ replicate MAX_ATTEMPTS RETRY_DELAY"
    by auto
  have "make_request_loop sc method True MAX_ATTEMPTS None w' = Inr (None, w')"
    by (rule loop_exit) simp
  with w' show ?thesis by (auto simp: make_request_def)
qed

text \<open>
  Claim C1. An operation that raises a connection error on every attempt: \<open>make_request\<close>
  returns \<open>None\<close> after exactly 5 attempts. The claim counts 4 pauses; the code pauses 5
  times: after the fifth failure it still writes "Waiting 30 seconds for before
  retrying." and sleeps, and only then leaves the loop.
\<close>

theorem make_request_five_failures_five_sleeps:
  "make_request no_status always_refused (world0 ()) =
     Inr (None,
          \<lparr>remote = (),
           log = [Log WARNING ''Error (%s) For API call %s, Args: %s, Kwargs: %s''
                    [PStr ''ConnectionError''],
                  Log WARNING ''Waiting %d seconds for before retrying.'' [PInt 30],
                  Log WARNING ''Error (%s) For API call %s, Args: %s, Kwargs: %s''
                    [PStr ''ConnectionError''],
                  Log WARNING ''Waiting %d seconds for before retrying.'' [PInt 30],
                  Log WARNING ''Error (%s) For API call %s, Args: %s, Kwargs: %s''
                    [PStr ''ConnectionError''],
                  Log WARNING ''Waiting %d seconds for before retrying.'' [PInt 30],
                  Log WARNING ''Error (%s) For API call %s, Args: %s, Kwargs: %s''
                    [PStr ''ConnectionError''],
                  Log WARNING ''Waiting %d seconds for before retrying.'' [PInt 30],
                  Log WARNING ''Error (%s) For API call %s, Args: %s, Kwargs: %s''
                    [PStr ''ConnectionError''],
                  Log WARNING ''Waiting %d seconds for before retrying.'' [PInt 30]],
           sleeps = [30, 30, 30, 30, 30], calls = 5, npm_table = [], pypi_table = []\<rparr>)"
  by (simp add: make_request_def make_request_loop.simps attempt_def invoke_def
      always_refused_def world0_def log_error_def logging_def time_sleep_def
      MAX_ATTEMPTS_def RETRY_DELAY_def)

text \<open>
  Claim C5. A response whose status code is not 200: \<open>make_request\<close> logs the code and
  returns \<open>None\<close> after the first attempt; it makes one call and no pause.
\<close>

theorem make_request_non_200:
  assumes "method (remote w) = (Returns v, r')" and "status_code v = Some c" and "c \<noteq> 200"
  shows "make_request status_code method w =
           Inr (None, w\<lparr>remote := r', calls := calls w + 1,
                         log := log w @ [Log WARNING
                           ''Error (%s) For API call %s, Args: %s, Kwargs: %s''
                           [PStr (str_int c)]]\<rparr>)"
  using assms
  by (simp add: make_request_def make_request_loop.simps[of _ _ True] loop_exit attempt_def
      invoke_def log_error_def logging_def MAX_ATTEMPTS_def)

lemma str_int_404: "str_int 404 = ''404''"
  by code_simp

theorem make_request_non_200_witness:
  "always_404 (remote (world0 ())) = (Returns not_found_response, ())
   \<and> response_status not_found_response = Some 404
   \<and> make_request response_status always_404 (world0 ()) =
       Inr (None,
            \<lparr>remote = (),
             log = [Log WARNING ''Error (%s) For API call %s, Args: %s, Kwargs: %s''
                      [PStr ''404'']],
             sleeps = [], calls = 1, npm_table = [], pypi_table = []\<rparr>)"
proof -
  have h1: "always_404 (remote (world0 ())) = (Returns not_found_response, ())"
    by (simp add: always_404_def)
  have h2: "response_status not_found_response = Some 404"
    by (simp add: response_status_def not_found_response_def)
  have h3: "(404::int) \<noteq> 200" by simp
  show ?thesis
    using make_request_non_200[of always_404 "world0 ()" not_found_response "()"
        response_status 404, OF h1 h2 h3] h1 h2
    by (simp add: world0_def str_int_404)
qed

text \<open>
  Claim C6. A method that raises a transient error on each of its first four calls and
  returns a response with status 200 on the fifth: \<open>make_request\<close> returns that response,
  after five calls and four pauses of 30 seconds.
\<close>

theorem make_request_fifth_attempt_succeeds:
  assumes "fails_transiently 4 method (remote w)"
    and "method (remote_after 4 method (remote w)) = (Returns v, r')"
    and "status_code v = Some 200"
  shows "\<exists>w'. make_request status_code method w = Inr (Some v, w')
           \<and> remote w' = r'
           \<and> calls w' = calls w + 5
           \<and> sleeps w' = sleeps w @ [30, 30, 30, 30]"
proof -
  from loop_transient_many[of 4 "method" w 0 status_code None] assms(1) obtain w1 where
    w1: "make_request_loop status_code method True 0 None w =
         make_request_loop status_code method True 4 None w1"
      "remote w1 = remote_after 4 method (remote w)"
      "calls w1 = calls w + 4"
      "sleeps w1 = sleeps w @ replicate 4 RETRY_DELAY"
    by (auto simp: MAX_ATTEMPTS_def)
  let ?w' = "w1\<lparr>remote := r', calls := calls w1 + 1\<rparr>"
  have "make_request_loop status_code method True 4 None w1 = Inr (Some v, ?w')"
    using assms(2,3) w1(2)
    by (simp add: make_request_loop.simps[of _ _ True] loop_exit attempt_def invoke_def
        MAX_ATTEMPTS_def)
  with w1 show ?thesis
    by (intro exI[of _ ?w']) (simp add: make_request_def RETRY_DELAY_def numeral_eq_Suc)
qed

theorem make_request_fifth_attempt_succeeds_witness:
  "fails_transiently 4 flaky (remote (world0 0))
   \<and> flaky (remote_after 4 flaky (remote (world0 0))) = (Returns ok_response, 5)
   \<and> response_status ok_response = Some 200
   \<and> (\<exists>w'. make_request response_status flaky (world0 0) = Inr (Some ok_response, w')
           \<and> remote w' = 5
           \<and> calls w' = 5
           \<and> sleeps w' = [30, 30, 30, 30])"
proof -
  have h1: "fails_transiently 4 flaky (remote (world0 0))"
    by (simp add: numeral_eq_Suc flaky_def transient_def world0_def)
  have h2: "flaky (remote_after 4 flaky (remote (world0 0))) = (Returns ok_response, 5)"
    by (simp add: numeral_eq_Suc flaky_def world0_def)
  have h3: "response_status ok_response = Some 200"
    by (simp add: response_status_def ok_response_def)
  show ?thesis
    using make_request_fifth_attempt_succeeds[of flaky "world0 0" ok_response 5
        response_status, OF h1 h2 h3] h1 h2 h3
    by (simp add: world0_def)
qed

section \<open>The download-count parser\<close>

lemma is_digit_not_special:
  "is_digit c \<Longrightarrow> c \<noteq> CHR '','' \<and> c \<noteq> CHR ''-'' \<and> c \<noteq> CHR ''+'' \<and> \<not> is_space c"
  by (auto simp: is_digit_def is_space_def Let_def)

lemma dropWhile_none: "(\<And>c. c \<in> set xs \<Longrightarrow> \<not> P c) \<Longrightarrow> dropWhile P xs = xs"
  by (cases xs) auto

lemma strip_digits:
  assumes "list_all is_digit ds"
  shows "strip ds = ds"
proof -
  have n: "\<not> is_space c" if "c \<in> set ds" for c
    using assms that by (auto simp: list_all_iff is_digit_not_special)
  have "dropWhile is_space ds = ds"
    using n by (intro dropWhile_none) auto
  moreover have "dropWhile is_space (rev ds) = rev ds"
    using n by (intro dropWhile_none) auto
  ultimately show ?thesis by (simp add: strip_def)
qed

lemma foldl_horner:
  "foldl (\<lambda>acc c. 10 * acc + digit_val c) a ds = a * 10 ^ length ds + decimal ds"
  by (induction ds arbitrary: a) (simp_all add: algebra_simps)

lemma digits_value_decimal: "digits_value ds = decimal ds"
  by (simp add: digits_value_def foldl_horner)

lemma py_int_digits:
  assumes "ds \<noteq> []" and "list_all is_digit ds"
  shows "py_int ds = Inr (int (decimal ds))"
proof -
  from assms obtain c cs where ds: "ds = c # cs" by (cases ds) auto
  with assms(2) have "is_digit c" by simp
  then have "c \<noteq> CHR ''-''" "c \<noteq> CHR ''+''" using is_digit_not_special by blast+
  with assms ds show ?thesis
    by (simp add: py_int_def strip_digits parse_digits_def digits_value_decimal)
qed

lemma replace_comma_digits:
  "list_all is_digit g \<Longrightarrow> replace_char CHR '','' [] g = g"
  by (induction g) (auto simp: replace_char_def is_digit_not_special)

lemma replace_char_append:
  "replace_char a b (xs @ ys) = replace_char a b xs @ replace_char a b ys"
  by (simp add: replace_char_def)

lemma replace_comma_separators:
  "digit_group g \<Longrightarrow> list_all digit_group hs \<Longrightarrow>
   replace_char CHR '','' [] (with_separators g hs) = concat (g # hs)"
proof (induction g hs rule: with_separators.induct)
  case (1 g)
  then show ?case by (simp add: replace_comma_digits digit_group_def)
next
  case (2 g h hs)
  have "replace_char CHR '','' [] (CHR '','' # with_separators h hs)
          = replace_char CHR '','' [] (with_separators h hs)"
    by (simp add: replace_char_def)
  with 2 show ?case
    by (simp add: replace_char_append replace_comma_digits digit_group_def
        del: concat.simps) simp
qed

lemma with_separators_nonempty: "digit_group g \<Longrightarrow> with_separators g hs \<noteq> []"
  by (cases hs) (auto simp: digit_group_def)

lemma concat_digit_groups:
  "digit_group g \<Longrightarrow> list_all digit_group hs \<Longrightarrow>
   concat (g # hs) \<noteq> [] \<and> list_all is_digit (concat (g # hs))"
  by (induction hs) (auto simp: digit_group_def)

text \<open>
  Claim C8. The download-count parser maps a string of digit groups joined by commas to
  the number its digits denote (\<open>"1,234"\<close> to 1234), and the empty string to 0.
\<close>

theorem to_count_separated_digits:
  "(digit_group g \<and> list_all digit_group hs \<longrightarrow>
      to_count (with_separators g hs) = Inr (int (decimal (concat (g # hs)))))
   \<and> to_count [] = Inr 0"
proof (intro conjI impI)
  assume a: "digit_group g \<and> list_all digit_group hs"
  then have ne: "with_separators g hs \<noteq> []" by (simp add: with_separators_nonempty)
  from a have r: "replace_char CHR '','' [] (with_separators g hs) = concat (g # hs)"
    by (simp add: replace_comma_separators)
  from a have "concat (g # hs) \<noteq> []" "list_all is_digit (concat (g # hs))"
    using concat_digit_groups by blast+
  then have "py_int (concat (g # hs)) = Inr (int (decimal (concat (g # hs))))"
    by (rule py_int_digits)
  with ne r show "to_count (with_separators g hs) = Inr (int (decimal (concat (g # hs))))"
    by (simp add: to_count_def)
next
  show "to_count [] = Inr 0" by (simp add: to_count_def)
qed

theorem to_count_separated_digits_witness:
  "digit_group ''1'' \<and> list_all digit_group [''234'']
   \<and> with_separators ''1'' [''234''] = ''1,234''
   \<and> to_count ''1,234'' = Inr 1234
   \<and> to_count '''' = Inr 0"
proof -
  have h: "digit_group ''1'' \<and> list_all digit_group [''234'']"
    by (simp add: digit_group_def is_digit_def)
  show ?thesis
    using to_count_separated_digits[of "''1''" "[''234'']"] h
    by (simp add: digit_val_def)
qed

section \<open>Properties of \<open>github_info\<close>\<close>

lemma no_marker_no_match: "\<not> has_marker s \<Longrightarrow> match_marker s = None"
  by (induction s) auto

lemma match_marker_literal:
  "\<not> has_marker tail \<Longrightarrow> match_marker (''github.com'' @ tail) = Some tail"
  by (simp add: no_marker_no_match marker_at_def starts_with_def newline_def)

lemma match_marker_prefix:
  "newline \<notin> set pre \<Longrightarrow> \<not> has_marker tail \<Longrightarrow>
   match_marker (pre @ ''github.com'' @ tail) = Some tail"
proof (induction pre)
  case Nil
  then show ?case using match_marker_literal by simp
next
  case (Cons c pre)
  then have "match_marker (pre @ ''github.com'' @ tail) = Some tail" by simp
  moreover from Cons.prems have "c \<noteq> newline" by auto
  ultimately show ?case by simp
qed

lemma is_substring_start: "starts_with pat s \<Longrightarrow> is_substring pat s"
  by (cases s) (auto simp: starts_with_def)

lemma is_substring_literal: "is_substring pat (pre @ pat @ tail)"
proof (induction pre)
  case Nil
  have "starts_with pat (pat @ tail)" by (simp add: starts_with_def)
  then show ?case by (simp add: is_substring_start)
next
  case (Cons c pre)
  then show ?case by simp
qed

lemma split_at_sep:
  "sep \<notin> set x \<Longrightarrow>
   takeWhile (\<lambda>c. c \<noteq> sep) (x @ sep # r) = x \<and> dropWhile (\<lambda>c. c \<noteq> sep) (x @ sep # r) = sep # r"
  by (induction x) auto

lemma split_max_two:
  assumes "sep \<notin> set x" and "sep \<notin> set owner"
  shows "split_max 2 sep (x @ sep # owner @ sep # repo) = [x, owner, repo]"
  using assms by (simp add: numeral_2_eq_2 split_at_sep)

lemma count_sep_tail:
  assumes "sep \<in> set s"
  shows "length (filter (\<lambda>c. c = sep) (tl (dropWhile (\<lambda>c. c \<noteq> sep) s)))
           = length (filter (\<lambda>c. c = sep) s) - 1"
  using assms by (induction s) auto

lemma length_split_max:
  "length (split_max n sep s) = Suc (min n (length (filter (\<lambda>c. c = sep) s)))"
proof (induction n arbitrary: s)
  case 0
  then show ?case by simp
next
  case (Suc n)
  show ?case
  proof (cases "sep \<in> set s")
    case True
    then have "filter (\<lambda>c. c = sep) s \<noteq> []"
      by (auto simp: filter_empty_conv)
    then obtain k where k: "length (filter (\<lambda>c. c = sep) s) = Suc k"
      by (cases "filter (\<lambda>c. c = sep) s") auto
    with True Suc show ?thesis by (simp add: count_sep_tail)
  next
    case False
    then have "filter (\<lambda>c. c = sep) s = []" by (auto simp: filter_empty_conv)
    with False show ?thesis by simp
  qed
qed

lemma unpack_too_few:
  assumes "length parts \<noteq> 3"
  shows "(case parts of [u, user, repo_name] \<Rightarrow> Inr (Some (user, repo_name)) | _ \<Rightarrow> Inl ValueError)
           = (Inl ValueError :: exn + (string \<times> string) option)"
  using assms by (auto split: list.splits)

text \<open>
  A URL \<open>pre + "github.com" + x + "/" + owner + "/" + repo\<close>, with no line break in
  \<open>pre\<close>, no \<open>/\<close> in \<open>x\<close> or \<open>owner\<close>, and no further match of the pattern after the
  marker, yields the pair \<open>(owner, repo)\<close>; \<open>repo\<close> may hold \<open>/\<close>.
\<close>

lemma github_info_owner_repo:
  assumes "newline \<notin> set pre"
    and "\<not> has_marker (x @ CHR ''/'' # owner @ CHR ''/'' # repo)"
    and "CHR ''/'' \<notin> set x" and "CHR ''/'' \<notin> set owner"
  shows "github_info (PStr (pre @ ''github.com'' @ x @ CHR ''/'' # owner @ CHR ''/'' # repo))
           = Inr (Some (owner, repo))"
proof -
  let ?tail = "x @ CHR ''/'' # owner @ CHR ''/'' # repo"
  have m: "marker_in (PStr (pre @ ''github.com'' @ ?tail)) = Inr True"
    using is_substring_literal[of "''github.com''" pre ?tail] by (simp add: marker_in_def)
  from assms have r: "re_sub_marker (pre @ ''github.com'' @ ?tail) = ?tail"
    using match_marker_prefix[of pre ?tail] by (simp add: re_sub_marker_def)
  from assms have s: "split_max 2 CHR ''/'' ?tail = [x, owner, repo]"
    by (simp add: split_max_two)
  show ?thesis
    using m r s by (simp add: github_info_def)
qed

lemma github_info_tree_url:
  "github_info (PStr ''https://github.com/foo/bar/tree/master'')
     = Inr (Some (''foo'', ''bar/tree/master''))"
proof -
  have h1: "newline \<notin> set ''https://''" by (simp add: newline_def)
  have h2: "\<not> has_marker ([] @ CHR ''/'' # ''foo'' @ CHR ''/'' # ''bar/tree/master'')"
    by (simp add: marker_at_def starts_with_def)
  show ?thesis
    using github_info_owner_repo[of "''https://''" "[]" "''foo''" "''bar/tree/master''"] h1 h2
    by simp
qed

text \<open>A URL without the marker yields \<open>None\<close>.\<close>

lemma github_info_no_marker:
  "\<not> is_substring ''github.com'' url \<Longrightarrow> github_info (PStr url) = Inr None"
  by (simp add: github_info_def marker_in_def)

text \<open>
  With fewer than two \<open>/\<close> after the marker the split has fewer than three parts, and
  the unpacking raises.
\<close>

lemma github_info_too_few_parts:
  assumes "newline \<notin> set pre" and "\<not> has_marker tail"
    and "length (filter (\<lambda>c. c = CHR ''/'') tail) < 2"
  shows "github_info (PStr (pre @ ''github.com'' @ tail)) = Inl ValueError"
proof -
  have m: "marker_in (PStr (pre @ ''github.com'' @ tail)) = Inr True"
    using is_substring_literal[of "''github.com''" pre tail] by (simp add: marker_in_def)
  from assms have r: "re_sub_marker (pre @ ''github.com'' @ tail) = tail"
    using match_marker_prefix[of pre tail] by (simp add: re_sub_marker_def)
  from assms have "length (split_max 2 CHR ''/'' tail) \<noteq> 3"
    by (simp add: length_split_max)
  then have "(case split_max 2 CHR ''/'' tail of
                [u, user, repo_name] \<Rightarrow> Inr (Some (user, repo_name))
              | _ \<Rightarrow> Inl ValueError) = (Inl ValueError :: exn + (string \<times> string) option)"
    by (rule unpack_too_few)
  with m r show ?thesis
    by (simp add: github_info_def)
qed

text \<open>
  Claim C9. The claim: every URL that contains the marker yields the pair of owner and
  repository name, and a URL without the marker yields no identity, so that the fetch
  skips the record. The code: on \<open>https://github.com/foo\<close>, a URL with the marker and a
  single path segment, the split has two parts and the unpacking
  \<open>_, user, repo_name = url.split('/', 2)\<close> raises \<open>ValueError\<close>. The fetcher tests the
  result for \<open>None\<close> only, so the exception leaves the readme fetch at that record, and
  the record after it, which has a repository, is never fetched.
\<close>

theorem github_info_single_segment_aborts:
  "is_substring ''github.com'' ''https://github.com/foo''
   \<and> github_info (PStr ''https://github.com/foo'') = Inl ValueError
   \<and> fetch_github_readmes readme_host [foo_package, bar_package] foo_bar_world
       = Inl ValueError"
proof -
  have g: "github_info (PStr ''https://github.com/foo'') = Inl ValueError"
    by (simp add: github_info_def marker_in_def starts_with_def re_sub_marker_def
        marker_at_def newline_def numeral_2_eq_2)
  have "repository_url foo_package = PStr ''https://github.com/foo''"
    by (simp add: foo_package_def new_package_def)
  with g have "fetch_github_readmes readme_host [foo_package, bar_package] foo_bar_world
       = Inl ValueError"
    by simp
  with g show ?thesis by (simp add: starts_with_def)
qed

section \<open>The readme fetch\<close>

lemma make_request_first_success:
  assumes "method (remote w) = (Returns v, r')"
    and "status_code v = None \<or> status_code v = Some 200"
  shows "make_request status_code method w = Inr (Some v, w\<lparr>remote := r', calls := calls w + 1\<rparr>)"
  using assms
  by (auto simp: make_request_def make_request_loop.simps[of _ _ True] loop_exit attempt_def
      invoke_def MAX_ATTEMPTS_def)

lemma b64decode_hello: "b64decode (PStr ''SGVsbG8='') = Inr ''Hello''"
  by code_simp

text \<open>
  Claim C10. A package whose repository URL gives a code-hosting identity, and a readme
  endpoint that returns an object whose \<open>content\<close> is the base64 text \<open>SGVsbG8=\<close>: the
  readme fetch decodes it and saves the package with the readme "Hello"; the row with the
  package's key takes that value. It makes one request and no pause.
\<close>

theorem fetch_github_readmes_persists_hello:
  assumes "github_info (repository_url p) = Inr (Some (user, repo_name))"
    and "readme_get user repo_name (remote w) = (Returns readme_obj, r')"
    and "getitem readme_obj ''content'' = Inr (PStr ''SGVsbG8='')"
  shows "\<exists>w'. fetch_github_readmes readme_get [p] w = Inr w'
           \<and> table (model p) w' =
               map (\<lambda>q. if row_id q = row_id p then p\<lparr>readme := PStr ''Hello''\<rparr> else q)
                 (table (model p) w)
           \<and> calls w' = calls w + 1 \<and> sleeps w' = sleeps w"
proof -
  let ?w0 = "logging INFO ''Fetching README for %s'' [name p] w"
  have r: "readme_get user repo_name (remote ?w0) = (Returns readme_obj, r')"
    using assms(2) by (simp add: logging_def)
  have "make_request no_status (readme_get user repo_name) ?w0 =
          Inr (Some readme_obj, ?w0\<lparr>remote := r', calls := calls ?w0 + 1\<rparr>)"
    using r by (rule make_request_first_success) (simp add: no_status_def)
  then show ?thesis
    using assms(1,3)
    by (cases "model p")
      (simp_all add: then_do_def b64decode_hello save_def table_def set_table_def logging_def)
qed

theorem fetch_github_readmes_persists_hello_witness:
  "github_info (repository_url bar_package) = Inr (Some (''foo'', ''bar''))
   \<and> readme_host ''foo'' ''bar'' (remote bar_world)
       = (Returns (PDict [(''content'', PStr ''SGVsbG8='')]), ())
   \<and> getitem (PDict [(''content'', PStr ''SGVsbG8='')]) ''content'' = Inr (PStr ''SGVsbG8='')
   \<and> (\<exists>w'. fetch_github_readmes readme_host [bar_package] bar_world = Inr w'
           \<and> npm_table w' = [bar_package\<lparr>readme := PStr ''Hello''\<rparr>]
           \<and> calls w' = 1 \<and> sleeps w' = [])"
proof -
  have h1: "github_info (repository_url bar_package) = Inr (Some (''foo'', ''bar''))"
    by (simp add: bar_package_def new_package_def github_info_def marker_in_def
        starts_with_def re_sub_marker_def marker_at_def newline_def numeral_2_eq_2)
  have h2: "readme_host ''foo'' ''bar'' (remote bar_world)
       = (Returns (PDict [(''content'', PStr ''SGVsbG8='')]), ())"
    by (simp add: readme_host_def)
  have h3: "getitem (PDict [(''content'', PStr ''SGVsbG8='')]) ''content''
       = Inr (PStr ''SGVsbG8='')"
    by (simp add: getitem_def)
  show ?thesis
    using fetch_github_readmes_persists_hello[of bar_package "''foo''" "''bar''" readme_host
        bar_world "PDict [(''content'', PStr ''SGVsbG8='')]" "()", OF h1 h2 h3] h1 h2 h3
    by (simp add: bar_world_def world0_def table_def bar_package_def new_package_def)
qed

section \<open>Properties of find-or-create\<close>

lemma table_set_table: "table cls (set_table cls rows w) = rows"
  by (cases cls) (simp_all add: table_def set_table_def)

lemma get_or_create_present:
  assumes "nm \<in> name ` set (table cls w)"
  shows "snd (get_or_create cls nm url pg w) = w
       \<and> fst (get_or_create cls nm url pg w) \<in> set (table cls w)
       \<and> name (fst (get_or_create cls nm url pg w)) = nm"
proof -
  from assms obtain q where "find (\<lambda>q. name q = nm) (table cls w) = Some q"
    by (cases "find (\<lambda>q. name q = nm) (table cls w)") (auto simp: find_None_iff)
  moreover from this have "q \<in> set (table cls w) \<and> name q = nm"
    by (auto simp: find_Some_iff)
  ultimately show ?thesis by (simp add: get_or_create_def)
qed

lemma get_or_create_absent:
  assumes "nm \<notin> name ` set (table cls w)"
  shows "table cls (snd (get_or_create cls nm url pg w)) =
           table cls w @ [new_package cls (fresh_id (table cls w)) nm url pg]"
proof -
  from assms have "find (\<lambda>q. name q = nm) (table cls w) = None"
    by (auto simp: find_None_iff)
  then show ?thesis by (simp add: get_or_create_def table_set_table Let_def)
qed

lemma name_new_package: "name (new_package cls i nm url pg) = nm"
  by (simp add: new_package_def)

text \<open>
  Claim C7. For a name already in the table, find-or-create leaves the whole store as it
  was (no row is added, no field of a row changes) and returns a row of the table with
  that name. In either case the rows that were there stay as they were, names that were
  distinct stay distinct, and a second find-or-create of the same name changes nothing.
\<close>

theorem get_or_create_keeps_existing:
  "(nm \<in> name ` set (table cls w) \<longrightarrow>
      snd (get_or_create cls nm url pg w) = w
      \<and> fst (get_or_create cls nm url pg w) \<in> set (table cls w)
      \<and> name (fst (get_or_create cls nm url pg w)) = nm)
   \<and> take (length (table cls w)) (table cls (snd (get_or_create cls nm url pg w))) = table cls w
   \<and> (distinct (map name (table cls w)) \<longrightarrow>
        distinct (map name (table cls (snd (get_or_create cls nm url pg w)))))
   \<and> snd (get_or_create cls nm url' pg' (snd (get_or_create cls nm url pg w)))
       = snd (get_or_create cls nm url pg w)"
proof (cases "nm \<in> name ` set (table cls w)")
  case True
  then show ?thesis using get_or_create_present[OF True] by simp
next
  case False
  let ?w1 = "snd (get_or_create cls nm url pg w)"
  from False have t: "table cls ?w1 = table cls w @ [new_package cls (fresh_id (table cls w)) nm url pg]"
    by (rule get_or_create_absent)
  then have "nm \<in> name ` set (table cls ?w1)" by (simp add: name_new_package)
  then have "snd (get_or_create cls nm url' pg' ?w1) = ?w1"
    using get_or_create_present by blast
  with False t show ?thesis by (auto simp: name_new_package)
qed


theorem get_or_create_keeps_existing_witness:
  "PStr ''bar'' \<in> name ` set (table NPMPackage bar_world)
   \<and> distinct (map name (table NPMPackage bar_world))
   \<and> snd (get_or_create NPMPackage (PStr ''bar'') (PStr ''https://elsewhere'') (PInt 3) bar_world)
       = bar_world
   \<and> fst (get_or_create NPMPackage (PStr ''bar'') (PStr ''https://elsewhere'') (PInt 3) bar_world)
       = bar_package"
proof -
  have h1: "PStr ''bar'' \<in> name ` set (table NPMPackage bar_world)"
    by (simp add: table_def bar_world_def bar_package_def new_package_def)
  have h2: "distinct (map name (table NPMPackage bar_world))"
    by (simp add: table_def bar_world_def)
  have t: "set (table NPMPackage bar_world) = {bar_package}"
    by (simp add: table_def bar_world_def)
  show ?thesis
    using get_or_create_keeps_existing[of "PStr ''bar''" NPMPackage bar_world
        "PStr ''https://elsewhere''" "PInt 3"] h1 h2 t
    by simp
qed

section \<open>The list fetches and the detail fetch on a request without result\<close>

lemma make_request_not_found:
  assumes "method (remote w) = (Raises HttpNotFoundError, r')"
  shows "make_request status_code method w =
           Inr (None, log_error ''Not Found'' (w\<lparr>remote := r', calls := calls w + 1\<rparr>))"
  using assms
  by (simp add: make_request_def make_request_loop.simps[of _ _ True] loop_exit attempt_def
      invoke_def MAX_ATTEMPTS_def)

lemma fetch_pages_no_result:
  assumes "make_request no_status (search_get page)
             (logging INFO ''Fetching page %d of package names'' [PInt page] w) = Inr (None, w1)"
  shows "fetch_pages (Suc fuel) search_get package_count page count_retrieved w
           = Some (Inl TypeError)"
  using assms by (simp add: store_page_def py_len_def)

lemma fetch_pypi_package_list_no_result:
  assumes "make_request response_status
             (session_get ''https://pypi.python.org/pypi?%3Aaction=index'') w = Inr (None, w1)"
  shows "fetch_pypi_package_list session_get find_rows w = Inl AttributeError"
  using assms by (simp add: fetch_pypi_package_list_def)

text \<open>
  Claim C2. The claim: a request without result skips one item and the batch goes on,
  also in the paginated name fetch and in the catalog-list fetch. The code: when the
  page request has no result, \<open>len(packages)\<close> raises \<open>TypeError\<close> right after the guarded
  \<open>for\<close> loop, and when the index request has no result, \<open>res.content\<close> raises
  \<open>AttributeError\<close>; both exceptions leave the function.
\<close>

theorem list_fetches_abort_on_no_result:
  "fetch_packagenames_from_libraryio (Suc fuel) (\<lambda>page. always_missing) package_count
     (world0 ()) = Some (Inl TypeError)
   \<and> fetch_pypi_package_list (\<lambda>url. always_404) find_rows (world0 ()) = Inl AttributeError"
proof
  have "make_request no_status always_missing
          (logging INFO ''Fetching page %d of package names'' [PInt 0] (world0 ()))
        = Inr (None, log_error ''Not Found''
            ((logging INFO ''Fetching page %d of package names'' [PInt 0] (world0 ()))
               \<lparr>remote := (),
                 calls := calls (logging INFO ''Fetching page %d of package names''
                                   [PInt 0] (world0 ())) + 1\<rparr>))"
    by (rule make_request_not_found) (simp add: always_missing_def)
  then show "fetch_packagenames_from_libraryio (Suc fuel) (\<lambda>page. always_missing)
     package_count (world0 ()) = Some (Inl TypeError)"
    unfolding fetch_packagenames_from_libraryio_def by (rule fetch_pages_no_result)
next
  have "\<exists>w1. make_request response_status always_404 (world0 ()) = Inr (None, w1)"
    by (simp add: make_request_def make_request_loop.simps[of _ _ True] loop_exit attempt_def
        invoke_def MAX_ATTEMPTS_def always_404_def response_status_def not_found_response_def)
  then obtain w1 where
    "make_request response_status
       ((\<lambda>url. always_404) ''https://pypi.python.org/pypi?%3Aaction=index'') (world0 ())
     = Inr (None, w1)"
    by auto
  then show "fetch_pypi_package_list (\<lambda>url. always_404) find_rows (world0 ())
               = Inl AttributeError"
    by (rule fetch_pypi_package_list_no_result)
qed


text \<open>The registry-listing fetch tests its result and ends quietly when there is none.\<close>

lemma fetch_npm_package_list_no_result:
  assumes "make_request response_status
             (session_get ''https://skimdb.npmjs.com/registry/_all_docs'') w = Inr (None, w1)"
  shows "fetch_npm_package_list session_get w = Inr w1"
  using assms by (simp add: fetch_npm_package_list_def)

lemma package_unbound: "lookup_global ''Package'' = Inl (NameError ''Package'')"
  by (simp add: lookup_global_def module_globals_def)

lemma create_from_items_name_error:
  "create_from_items (p # ps) page w = Inl (NameError ''Package'')"
  by (simp add: package_unbound then_do_def)

text \<open>
  Claim C4. The claim: with two items on page 0 and none on page 1 the paginated fetch
  creates two records and stops after page 1. The code: the first item of page 0
  evaluates \<open>Package\<close>, a name the module does not bind, and \<open>NameError\<close> leaves the
  function before any record is created and before page 1 is requested.
\<close>

theorem fetch_packagenames_two_pages_name_error:
  "fetch_packagenames_from_libraryio (Suc fuel) two_pages package_count (world0 ())
     = Some (Inl (NameError ''Package''))"
proof -
  let ?w0 = "logging INFO ''Fetching page %d of package names'' [PInt 0] (world0 ())"
  have "\<exists>v w1. make_request no_status (two_pages 0) ?w0 = Inr (Some (PList (v # [PDict [(''name'', PStr ''is-odd''),
                  (''repository_url'', PStr ''https://github.com/b/is-odd'')]])), w1)"
    by (simp add: make_request_first_success[where r' = "()"] two_pages_def no_status_def)
  then show ?thesis
    by (auto simp: fetch_packagenames_from_libraryio_def store_page_def py_iter_def
        then_do_def package_unbound)
qed

text \<open>
  Claim C3. The claim: a response that is not JSON is logged and the package is left as
  it was. The code: after the log line the assignments run on \<open>package_json\<close> all the
  same. With package \<open>a\<close> fetched first, package \<open>b\<close> takes the counts, the summary and
  the description of \<open>a\<close> and is saved with them; with \<open>b\<close> first the variable is not
  yet bound and \<open>UnboundLocalError\<close> leaves the function.
\<close>

theorem fetch_pypi_data_reuses_previous_json:
  "(\<exists>w'. fetch_pypi_data pypi_host [pkg_a, pkg_b] pypi_world = Inr w'
         \<and> pypi_table w' =
             [pkg_a\<lparr>day_download_count := PInt 1, week_download_count := PInt 7,
                     month_download_count := PInt 30, description := PStr ''A'',
                     readme := PStr ''About A''\<rparr>,
              pkg_b\<lparr>day_download_count := PInt 1, week_download_count := PInt 7,
                     month_download_count := PInt 30, description := PStr ''A'',
                     readme := PStr ''About A''\<rparr>])
   \<and> fetch_pypi_data pypi_host [pkg_b, pkg_a] pypi_world
       = Inl (UnboundLocalError ''package_json'')"
  by (simp add: fetch_pypi_data_def formatted_name_def replace_char_def nbsp_def
      pkg_a_def pkg_b_def new_package_def pypi_world_def world0_def pypi_host_def
      make_request_def make_request_loop.simps[of _ _ True] loop_exit attempt_def invoke_def
      MAX_ATTEMPTS_def response_status_def logging_def then_do_def assign_info_def
      getitem_def info_a_def save_def table_def set_table_def)


end
